theory Spec2Isabelle
  imports Complex_Main "HOL-Library.Char_ord" "HOL-Library.List_Lexorder" "HOL-Library.Multiset"
begin

section \<open>JavaScript values and text\<close>

text \<open>
  The calendar date that a valid JavaScript \<open>Date\<close> object shows in local time.
  An \<open>Invalid Date\<close> is \<open>None\<close> of \<open>cal option\<close>.
\<close>

datatype cal = Cal (year: nat) (month: nat) (day: nat)

text \<open>
  The values a raw record can hold: what a JSON document, a spreadsheet row and a form
  field deliver, and \<open>Date\<close> objects, which \<open>formatDateInput\<close> tests for.
  Numbers are the integers, which \<open>String\<close> prints in decimal; nested objects and
  arrays are not modelled.
\<close>

datatype jsval =
    JUndefined
  | JNull
  | JBool bool
  | JNum int
  | JStr string
  | JDate "cal option"

text \<open>
  The functions of the platform and of the date library (date-fns) whose code is not
  part of the repository are parameters of the model: \<open>parseISO\<close> reads a text as a
  date (\<open>None\<close> is the invalid date), \<open>dateToString\<close> is the text \<open>String\<close> gives
  for a valid \<open>Date\<close> object.
\<close>

record lib =
  parseISO :: "string \<Rightarrow> cal option"
  dateToString :: "cal \<Rightarrow> string"

definition digit_char :: "nat \<Rightarrow> char" where
  "digit_char n = char_of (48 + n)"

fun dec_nat :: "nat \<Rightarrow> string" where
  "dec_nat n = (if n < 10 then [digit_char n] else dec_nat (n div 10) @ [digit_char (n mod 10)])"

declare dec_nat.simps [simp del]

text \<open>\<open>String(value)\<close>.\<close>

fun js_String :: "lib \<Rightarrow> jsval \<Rightarrow> string" where
  "js_String L JUndefined = ''undefined''"
| "js_String L JNull = ''null''"
| "js_String L (JBool b) = (if b then ''true'' else ''false'')"
| "js_String L (JNum n) = (if n < 0 then ''-'' @ dec_nat (nat (- n)) else dec_nat (nat n))"
| "js_String L (JStr s) = s"
| "js_String L (JDate None) = ''Invalid Date''"
| "js_String L (JDate (Some d)) = dateToString L d"

text \<open>\<open>!value\<close>: the falsy values.\<close>

fun falsy :: "jsval \<Rightarrow> bool" where
  "falsy JUndefined = True"
| "falsy JNull = True"
| "falsy (JBool b) = (\<not> b)"
| "falsy (JNum n) = (n = 0)"
| "falsy (JStr s) = (s = [])"
| "falsy (JDate d) = False"

text \<open>\<open>a ?? b\<close>: the right operand is taken only when the left one is null or undefined.\<close>

fun nullish :: "jsval \<Rightarrow> bool" where
  "nullish JUndefined = True"
| "nullish JNull = True"
| "nullish v = False"

definition coalesce :: "jsval \<Rightarrow> jsval \<Rightarrow> jsval" where
  "coalesce a b = (if nullish a then b else a)"

text \<open>A raw record, and the read of a property, \<open>undefined\<close> when the key is absent.\<close>

type_synonym raw = "string \<rightharpoonup> jsval"

definition get :: "raw \<Rightarrow> string \<Rightarrow> jsval" where
  "get r k = (case r k of None \<Rightarrow> JUndefined | Some v \<Rightarrow> v)"

text \<open>
  \<open>String.prototype.trim\<close>, on the characters of the Latin-1 range: tab, line feed,
  vertical tab, form feed, carriage return, space and no-break space are white space.
\<close>

definition js_whitespace :: "char \<Rightarrow> bool" where
  "js_whitespace c = (of_char c \<in> {9::nat, 10, 11, 12, 13, 32, 160})"

definition trim :: "string \<Rightarrow> string" where
  "trim s = rev (dropWhile js_whitespace (rev (dropWhile js_whitespace s)))"

section \<open>Event Normalizer\<close>

text \<open>\<open>format(d, "yyyy-MM-dd")\<close>: each number is padded with zeros to its width.\<close>

definition addLeadingZeros :: "nat \<Rightarrow> nat \<Rightarrow> string" where
  "addLeadingZeros n len = replicate (len - length (dec_nat n)) (CHR ''0'') @ dec_nat n"

definition format_ymd :: "cal \<Rightarrow> string" where
  "format_ymd d =
     addLeadingZeros (year d) 4 @ ''-'' @ addLeadingZeros (month d) 2 @ ''-'' @
     addLeadingZeros (day d) 2"

definition formatDateInput :: "lib \<Rightarrow> jsval \<Rightarrow> string" where
  "formatDateInput L v =
     (if falsy v then ''''
      else case v of
        JDate (Some d) \<Rightarrow> format_ymd d
      | _ \<Rightarrow> (case parseISO L (js_String L v) of
                Some p \<Rightarrow> format_ymd p
              | None \<Rightarrow> ''''))"

text \<open>The canonical event. The field \<open>notes\<close> of the source is \<open>enotes\<close> here.\<close>

record event =
  date :: string
  type :: string
  title :: string
  enotes :: string

definition dateValue :: "raw \<Rightarrow> jsval" where
  "dateValue r = coalesce (coalesce (get r ''date'') (get r ''Date'')) (get r ''DATE'')"

definition normalizeEvent :: "lib \<Rightarrow> raw \<Rightarrow> event" where
  "normalizeEvent L r =
     \<lparr> date = formatDateInput L (dateValue r),
       type = trim (js_String L (coalesce (coalesce (get r ''type'') (get r ''Type'')) (JStr ''''))),
       title = trim (js_String L (coalesce (coalesce (get r ''title'') (get r ''Title'')) (JStr ''''))),
       enotes = trim (js_String L (coalesce (coalesce (get r ''notes'') (get r ''Notes'')) (JStr ''''))) \<rparr>"

text \<open>An event object read as a raw record: its four properties are texts.\<close>

definition event_raw :: "event \<Rightarrow> raw" where
  "event_raw e =
     [''date'' \<mapsto> JStr (date e), ''type'' \<mapsto> JStr (type e),
      ''title'' \<mapsto> JStr (title e), ''notes'' \<mapsto> JStr (enotes e)]"

section \<open>Event Source Loader\<close>

text \<open>A thrown \<open>Error\<close> is its message.\<close>

type_synonym error = string

text \<open>
  What the loaders read of a reply: whether \<open>response.ok\<close> holds, and what decoding
  the body gives. For the workbook, \<open>XLSX.read\<close> and \<open>sheet_to_json\<close> throw or give
  the rows of the first sheet. For the JSON document, \<open>response.json()\<close> throws or gives
  data, of which \<open>data?.events\<close> is an array of rows (\<open>Some\<close>) or is not an array.
  A \<open>fetch\<close> that rejects is \<open>Inl\<close>. Every row is an object: a \<open>null\<close> among the
  rows, on which \<open>normalizeEvent\<close> throws, is not modelled.
\<close>

record sheet_reply =
  sheet_ok :: bool
  sheet_rows :: "error + raw list"

record json_reply =
  json_ok :: bool
  json_events :: "error + raw list option"

definition fetchSheetEvents :: "lib \<Rightarrow> error + sheet_reply \<Rightarrow> error + event list" where
  "fetchSheetEvents L res =
     (case res of
        Inl e \<Rightarrow> Inl e
      | Inr response \<Rightarrow>
          if \<not> sheet_ok response then Inl ''Unable to load pregnancy-data.xlsx''
          else (case sheet_rows response of
                  Inl e \<Rightarrow> Inl e
                | Inr rows \<Rightarrow> Inr (filter (\<lambda>ev. date ev \<noteq> []) (map (normalizeEvent L) rows))))"

definition fetchJsonEvents :: "lib \<Rightarrow> error + json_reply \<Rightarrow> error + event list" where
  "fetchJsonEvents L res =
     (case res of
        Inl e \<Rightarrow> Inl e
      | Inr response \<Rightarrow>
          if \<not> json_ok response then Inl ''Unable to load pregnancy-data.json''
          else (case json_events response of
                  Inl e \<Rightarrow> Inl e
                | Inr data \<Rightarrow>
                    let rows = (case data of Some evs \<Rightarrow> evs | None \<Rightarrow> [])
                    in Inr (filter (\<lambda>ev. date ev \<noteq> []) (map (normalizeEvent L) rows))))"

section \<open>Event Store\<close>

record settings =
  owner :: string
  repo :: string
  branch :: string
  token :: string
  jsonPath :: string
  xlsxPath :: string

text \<open>
  The state of the component \<open>App\<close>: the event list, the selected day, the four fields
  of \<open>status\<close>, the form (an object of the four texts \<open>date\<close>, \<open>type\<close>, \<open>title\<close>,
  \<open>notes\<close>, so an \<open>event\<close>) and the settings. The month shown by the calendar,
  \<open>currentMonth\<close>, which no operation modelled here reads or writes, is left out.
\<close>

record app =
  events :: "event list"
  selectedDate :: "cal option"
  loading :: bool
  error :: string
  saving :: bool
  message :: string
  form :: event
  settings :: settings

definition emptyForm :: event where
  "emptyForm = \<lparr> date = '''', type = '''', title = '''', enotes = '''' \<rparr>"

definition defaultSettings :: settings where
  "defaultSettings =
     \<lparr> owner = '''', repo = '''', branch = ''main'', token = '''',
       jsonPath = ''public/data/pregnancy-data.json'',
       xlsxPath = ''public/data/pregnancy-data.xlsx'' \<rparr>"

text \<open>The state \<open>App\<close> starts in; \<open>today\<close> is the day \<open>new Date()\<close> gives.\<close>

definition initial :: "cal \<Rightarrow> app" where
  "initial today =
     \<lparr> events = [], selectedDate = Some today, loading = True, error = '''',
       saving = False, message = '''', form = emptyForm, settings = defaultSettings \<rparr>"

text \<open>\<open>error.message || fallback\<close>.\<close>

definition message_or :: "error \<Rightarrow> string \<Rightarrow> string" where
  "message_or e fallback = (if e = [] then fallback else e)"

text \<open>The effect \<open>loadEvents\<close>: the workbook first, the JSON document when that fails.\<close>

definition loadEvents :: "lib \<Rightarrow> error + sheet_reply \<Rightarrow> error + json_reply \<Rightarrow> app \<Rightarrow> app" where
  "loadEvents L sheetRes jsonRes st =
     (let st1 = st\<lparr> loading := True, error := '''' \<rparr>;
          st2 = (case fetchSheetEvents L sheetRes of
                   Inr sheetEvents \<Rightarrow> st1\<lparr> events := sheetEvents \<rparr>
                 | Inl _ \<Rightarrow>
                     (case fetchJsonEvents L jsonRes of
                        Inr jsonEvents \<Rightarrow> st1\<lparr> events := jsonEvents \<rparr>
                      | Inl jsonError \<Rightarrow>
                          st1\<lparr> error := message_or jsonError ''Unable to load data'' \<rparr>))
      in st2\<lparr> loading := False \<rparr>)"

text \<open>
  \<open>a.localeCompare(b)\<close>, taken as the comparison of the texts character by character,
  which is the order of date keys (digits and hyphens at the same places).
\<close>

definition localeCompare :: "string \<Rightarrow> string \<Rightarrow> int" where
  "localeCompare a b = (if a < b then - 1 else if a = b then 0 else 1)"

text \<open>
  \<open>Array.prototype.sort\<close> with a comparator is a stable sort; it is modelled by
  insertion: an element goes before the first later element that is not smaller.
\<close>

fun insert_cmp :: "('a \<Rightarrow> 'a \<Rightarrow> int) \<Rightarrow> 'a \<Rightarrow> 'a list \<Rightarrow> 'a list" where
  "insert_cmp cmp x [] = [x]"
| "insert_cmp cmp x (y # ys) =
     (if cmp x y \<le> 0 then x # y # ys else y # insert_cmp cmp x ys)"

fun js_sort :: "('a \<Rightarrow> 'a \<Rightarrow> int) \<Rightarrow> 'a list \<Rightarrow> 'a list" where
  "js_sort cmp [] = []"
| "js_sort cmp (x # xs) = insert_cmp cmp x (js_sort cmp xs)"

definition byDate :: "event \<Rightarrow> event \<Rightarrow> int" where
  "byDate a b = localeCompare (date a) (date b)"

definition handleAddEvent :: "lib \<Rightarrow> app \<Rightarrow> app" where
  "handleAddEvent L st =
     (if date (form st) = [] \<or> title (form st) = []
      then st\<lparr> message := ''Please add at least a date and title.'' \<rparr>
      else
        let newEvent = normalizeEvent L (event_raw (form st))
        in st\<lparr> events := js_sort byDate (events st @ [newEvent]),
               selectedDate := parseISO L (date newEvent),
               form := emptyForm,
               message := ''Event added locally.'' \<rparr>)"

text \<open>The upcoming window; \<open>today\<close> is the day \<open>new Date()\<close> gives.\<close>

definition upcomingEvents :: "cal \<Rightarrow> event list \<Rightarrow> event list" where
  "upcomingEvents today evs =
     (let todayKey = format_ymd today
      in take 5 (js_sort byDate (filter (\<lambda>ev. date ev \<ge> todayKey) evs)))"

definition topEvents :: "cal \<Rightarrow> event list \<Rightarrow> event list" where
  "topEvents today evs = take 3 (upcomingEvents today evs)"

section \<open>Gestational Progress Calculator\<close>

text \<open>
  The arithmetic of the source on whole numbers: \<open>Math.floor(a / b)\<close>, the remainder
  \<open>a % b\<close>, which has the sign of \<open>a\<close>, and \<open>Math.ceil(a / b)\<close>, for a positive \<open>b\<close>.
\<close>

definition floor_div :: "int \<Rightarrow> int \<Rightarrow> int" where
  "floor_div a b = a div b"

definition js_rem :: "int \<Rightarrow> int \<Rightarrow> int" where
  "js_rem a b = sgn a * (\<bar>a\<bar> mod \<bar>b\<bar>)"

definition ceil_div :: "int \<Rightarrow> int \<Rightarrow> int" where
  "ceil_div a b = - ((- a) div b)"

text \<open>
  The progress snapshot. \<open>pregnancyMonth\<close> is a number or the text \<open>"-"\<close>, which is
  \<open>None\<close>. \<open>weekStart\<close> and \<open>weekEnd\<close> are kept as the number of days that \<open>addDays\<close>
  adds to the reference date.
\<close>

record progress =
  weekNumber :: int
  dayOfWeek :: int
  trimester :: string
  pregnancyMonth :: "int option"
  weekStart :: int
  weekEnd :: int

text \<open>
  \<open>pregnancyProgress\<close>, as a function of \<open>dayDelta\<close>, the number that
  \<open>differenceInCalendarDays(today, lmpDate)\<close> gives.
\<close>

definition pregnancyProgress :: "int \<Rightarrow> progress" where
  "pregnancyProgress dayDelta =
     (let weekNumber = (if dayDelta \<ge> 0 then floor_div dayDelta 7 else 0);
          dayOfWeek = (if dayDelta \<ge> 0 then js_rem dayDelta 7 else 0);
          weekStart = max 0 weekNumber * 7;
          weekEnd = weekStart + 6;
          trimester =
            (if weekNumber \<le> 0 then ''-''
             else if weekNumber \<le> 12 then ''1st Trimester''
             else if weekNumber \<le> 27 then ''2nd Trimester''
             else ''3rd Trimester'');
          pregnancyMonth = (if weekNumber \<le> 0 then None else Some (ceil_div weekNumber 4))
      in \<lparr> weekNumber = weekNumber, dayOfWeek = dayOfWeek, trimester = trimester,
           pregnancyMonth = pregnancyMonth, weekStart = weekStart, weekEnd = weekEnd \<rparr>)"

section \<open>Remote Sync Client\<close>

datatype http_method = GET | PUT

text \<open>
  The object that \<open>putGitHubFile\<close> sends as the body of its request. \<open>sha\<close> is the value
  that \<open>getGitHubFileSha\<close> returned: \<open>JNull\<close> when there is no prior revision.
\<close>

record put_body =
  commit_message :: string
  content :: string
  sha :: jsval
  target_branch :: string

record request =
  http_method :: http_method
  url :: string
  authorization :: string
  accept :: string
  body :: "put_body option"

text \<open>
  What the sync client reads of a reply: the status, the text of the body
  (\<open>response.text()\<close>) and the body as JSON (\<open>response.json()\<close>): each may throw; the
  JSON data is \<open>None\<close> for \<open>null\<close>, else the properties of the value.
\<close>

record reply =
  status :: nat
  text_body :: "error + string"
  json_body :: "error + raw option"

definition ok :: "reply \<Rightarrow> bool" where
  "ok response = (200 \<le> status response \<and> status response \<le> 299)"

text \<open>
  The remote store answers a request knowing the requests made before; \<open>Inl\<close> is a
  \<open>fetch\<close> that rejects. \<open>fetch\<close> records the request in the list of the calls made.
\<close>

type_synonym remote = "request list \<Rightarrow> request \<Rightarrow> error + reply"

definition fetch :: "remote \<Rightarrow> request \<Rightarrow> request list \<Rightarrow> (error + reply) \<times> request list" where
  "fetch srv req calls = (srv calls req, calls @ [req])"

definition get_request :: "string \<Rightarrow> string \<Rightarrow> string \<Rightarrow> string \<Rightarrow> string \<Rightarrow> request" where
  "get_request own rep path br tok =
     \<lparr> http_method = GET,
       url = ''https://api.github.com/repos/'' @ own @ ''/'' @ rep @ ''/contents/'' @ path @
             ''?ref='' @ br,
       authorization = ''token '' @ tok,
       accept = ''application/vnd.github+json'',
       body = None \<rparr>"

definition put_request ::
  "string \<Rightarrow> string \<Rightarrow> string \<Rightarrow> string \<Rightarrow> string \<Rightarrow> string \<Rightarrow> string \<Rightarrow> jsval \<Rightarrow> request" where
  "put_request own rep path br tok cont msg s =
     \<lparr> http_method = PUT,
       url = ''https://api.github.com/repos/'' @ own @ ''/'' @ rep @ ''/contents/'' @ path,
       authorization = ''token '' @ tok,
       accept = ''application/vnd.github+json'',
       body = Some \<lparr> commit_message = msg, content = cont, sha = s, target_branch = br \<rparr> \<rparr>"

definition getGitHubFileSha ::
  "remote \<Rightarrow> string \<Rightarrow> string \<Rightarrow> string \<Rightarrow> string \<Rightarrow> string \<Rightarrow> request list
     \<Rightarrow> (error + jsval) \<times> request list" where
  "getGitHubFileSha srv own rep path br tok calls =
     (case fetch srv (get_request own rep path br tok) calls of
        (Inl e, calls') \<Rightarrow> (Inl e, calls')
      | (Inr response, calls') \<Rightarrow>
          if status response = 404 then (Inr JNull, calls')
          else if \<not> ok response
          then (Inl (''Failed to read '' @ path @ '': '' @ dec_nat (status response)), calls')
          else (case json_body response of
                  Inl e \<Rightarrow> (Inl e, calls')
                | Inr None \<Rightarrow> (Inl ''Cannot read properties of null'', calls')
                | Inr (Some data) \<Rightarrow> (Inr (get data ''sha''), calls')))"

definition putGitHubFile ::
  "remote \<Rightarrow> string \<Rightarrow> string \<Rightarrow> string \<Rightarrow> string \<Rightarrow> string \<Rightarrow> string \<Rightarrow> string
     \<Rightarrow> request list \<Rightarrow> (error + raw option) \<times> request list" where
  "putGitHubFile srv own rep path br tok cont msg calls =
     (case getGitHubFileSha srv own rep path br tok calls of
        (Inl e, calls1) \<Rightarrow> (Inl e, calls1)
      | (Inr s, calls1) \<Rightarrow>
          (case fetch srv (put_request own rep path br tok cont msg s) calls1 of
             (Inl e, calls2) \<Rightarrow> (Inl e, calls2)
           | (Inr response, calls2) \<Rightarrow>
               if \<not> ok response
               then (case text_body response of
                       Inl e \<Rightarrow> (Inl e, calls2)
                     | Inr errorText \<Rightarrow>
                         (Inl (''Failed to update '' @ path @ '': '' @
                               dec_nat (status response) @ '' '' @ errorText), calls2))
               else (json_body response, calls2)))"

text \<open>
  The two payloads of a sync, made by \<open>JSON.stringify\<close>, the workbook writer and the
  base-64 coding of the platform, are parameters.
\<close>

record codec =
  jsonContent :: "event list \<Rightarrow> string"
  xlsxContent :: "event list \<Rightarrow> string"

definition handleSync :: "codec \<Rightarrow> remote \<Rightarrow> app \<Rightarrow> request list \<Rightarrow> app \<times> request list" where
  "handleSync C srv st calls =
     (let s = settings st in
      if owner s = [] \<or> repo s = [] \<or> token s = []
      then (st\<lparr> message := ''Add GitHub owner, repo, and token before syncing.'' \<rparr>, calls)
      else
        let st1 = st\<lparr> saving := True, message := '''' \<rparr> in
        (case putGitHubFile srv (owner s) (repo s) (jsonPath s) (branch s) (token s)
                (jsonContent C (events st)) ''Update pregnancy data JSON'' calls of
           (Inl e, calls1) \<Rightarrow> (st1\<lparr> message := message_or e ''Sync failed.'', saving := False \<rparr>, calls1)
         | (Inr _, calls1) \<Rightarrow>
             (case putGitHubFile srv (owner s) (repo s) (xlsxPath s) (branch s) (token s)
                     (xlsxContent C (events st)) ''Update pregnancy data Excel'' calls1 of
                (Inl e, calls2) \<Rightarrow>
                  (st1\<lparr> message := message_or e ''Sync failed.'', saving := False \<rparr>, calls2)
              | (Inr _, calls2) \<Rightarrow>
                  (st1\<lparr> message := ''Synced data to GitHub.'', saving := False \<rparr>, calls2))))"

section \<open>Runs of the store and the form of its dates\<close>

text \<open>
  The two ways the event list changes: a load, with the replies the two sources give, and
  an add, where the user fills the form and submits it.
\<close>

datatype op = Load "error + sheet_reply" "error + json_reply" | Add event

fun step :: "lib \<Rightarrow> app \<Rightarrow> op \<Rightarrow> app" where
  "step L st (Load sheetRes jsonRes) = loadEvents L sheetRes jsonRes st"
| "step L st (Add f) = handleAddEvent L (st\<lparr> form := f \<rparr>)"

definition run :: "lib \<Rightarrow> op list \<Rightarrow> app \<Rightarrow> app" where
  "run L ops st = foldl (step L) st ops"

text \<open>The canonical form \<open>YYYY-MM-DD\<close>: four digits, a hyphen, two digits, a hyphen, two digits.\<close>

definition is_digit :: "char \<Rightarrow> bool" where
  "is_digit c = (48 \<le> (of_char c :: nat) \<and> (of_char c :: nat) \<le> 57)"

definition iso_date_form :: "string \<Rightarrow> bool" where
  "iso_date_form s =
     (length s = 10 \<and> list_all is_digit (take 4 s) \<and> s ! 4 = CHR ''-'' \<and>
      list_all is_digit (take 2 (drop 5 s)) \<and> s ! 7 = CHR ''-'' \<and>
      list_all is_digit (drop 8 s))"


text \<open>
  The date that \<open>formatDateInput\<close> formats for a value, when there is one: the value
  itself when it is a valid \<open>Date\<close> object, else what \<open>parseISO\<close> reads in its text.
  A value is unparseable when this is \<open>None\<close>.
\<close>

definition readDate :: "lib \<Rightarrow> jsval \<Rightarrow> cal option" where
  "readDate L v = (case v of JDate (Some d) \<Rightarrow> Some d | _ \<Rightarrow> parseISO L (js_String L v))"







section \<open>A reference date library\<close>

text \<open>
  To run the model on concrete inputs, the parameters are instantiated by a parser of the
  complete calendar date \<open>YYYY-MM-DD\<close>, the form of the dates in the data files and of
  the date field of the form. The parser of date-fns reads more forms than this one.
\<close>

definition digit_val :: "char \<Rightarrow> nat" where
  "digit_val c = of_char c - 48"

definition num_of :: "string \<Rightarrow> nat" where
  "num_of s = foldl (\<lambda>n c. 10 * n + digit_val c) 0 s"

definition leap_year :: "nat \<Rightarrow> bool" where
  "leap_year y = (y mod 4 = 0 \<and> (y mod 100 \<noteq> 0 \<or> y mod 400 = 0))"

definition days_in_month :: "nat \<Rightarrow> nat \<Rightarrow> nat" where
  "days_in_month y m =
     (if m = 2 then (if leap_year y then 29 else 28)
      else if m = 4 \<or> m = 6 \<or> m = 9 \<or> m = 11 then 30 else 31)"

definition parse_ymd :: "string \<Rightarrow> cal option" where
  "parse_ymd s =
     (if iso_date_form s then
        let y = num_of (take 4 s); m = num_of (take 2 (drop 5 s)); d = num_of (drop 8 s)
        in if 1 \<le> m \<and> m \<le> 12 \<and> 1 \<le> d \<and> d \<le> days_in_month y m then Some (Cal y m d) else None
      else None)"

definition ref_lib :: lib where
  "ref_lib = \<lparr> parseISO = parse_ymd, dateToString = (\<lambda>d. ''Date '' @ format_ymd d) \<rparr>"

section \<open>Texts: trimming and formatting\<close>






lemma trim_Nil: "trim [] = []"
  by (simp add: trim_def)


section \<open>Normalization\<close>




text \<open>\<open>formatDateInput\<close> formats the date read in the value, unless the value is falsy.\<close>

lemma formatDateInput_cases:
  "formatDateInput L v =
     (if falsy v then [] else case readDate L v of None \<Rightarrow> [] | Some d \<Rightarrow> format_ymd d)"
  by (cases v) (auto simp: formatDateInput_def readDate_def split: option.splits)





lemma normalize_date_empty:
  "readDate L (dateValue r) = None \<Longrightarrow> date (normalizeEvent L r) = []"
  by (simp add: normalizeEvent_def formatDateInput_cases)

lemma fetchSheetEvents_dated:
  "fetchSheetEvents L res = Inr evs \<Longrightarrow> ev \<in> set evs \<Longrightarrow> date ev \<noteq> []"
  by (auto simp: fetchSheetEvents_def split: sum.splits if_splits)

lemma fetchJsonEvents_dated:
  "fetchJsonEvents L res = Inr evs \<Longrightarrow> ev \<in> set evs \<Longrightarrow> date ev \<noteq> []"
  by (auto simp: fetchJsonEvents_def Let_def split: sum.splits if_splits option.splits)

text \<open>
  Claim C8. When the date field of a raw record is unparseable (no date is read in it),
  the normalized event has the empty date, and the event is in no list that the sheet
  loader or the JSON loader returns.
\<close>

theorem unparseable_excluded:
  assumes "readDate L (dateValue r) = None"
  shows "date (normalizeEvent L r) = [] \<and>
         (\<forall>res evs. fetchSheetEvents L res = Inr evs \<longrightarrow> normalizeEvent L r \<notin> set evs) \<and>
         (\<forall>res evs. fetchJsonEvents L res = Inr evs \<longrightarrow> normalizeEvent L r \<notin> set evs)"
proof -
  have d: "date (normalizeEvent L r) = []"
    using assms by (rule normalize_date_empty)
  have s: "\<forall>res evs. fetchSheetEvents L res = Inr evs \<longrightarrow> normalizeEvent L r \<notin> set evs"
    using d fetchSheetEvents_dated by blast
  have j: "\<forall>res evs. fetchJsonEvents L res = Inr evs \<longrightarrow> normalizeEvent L r \<notin> set evs"
    using d fetchJsonEvents_dated by blast
  from d s j show ?thesis by blast
qed

theorem unparseable_excluded_witness:
  "readDate ref_lib (dateValue [''date'' \<mapsto> JStr ''soon'', ''title'' \<mapsto> JStr ''Scan'']) = None \<and>
   date (normalizeEvent ref_lib [''date'' \<mapsto> JStr ''soon'', ''title'' \<mapsto> JStr ''Scan'']) = [] \<and>
   fetchSheetEvents ref_lib
     (Inr \<lparr> sheet_ok = True,
            sheet_rows = Inr [[''date'' \<mapsto> JStr ''soon'', ''title'' \<mapsto> JStr ''Scan''],
                              [''date'' \<mapsto> JStr ''2026-03-09'', ''title'' \<mapsto> JStr ''NT scan'']] \<rparr>) =
     Inr [\<lparr> date = ''2026-03-09'', type = [], title = ''NT scan'', enotes = [] \<rparr>] \<and>
   normalizeEvent ref_lib [''date'' \<mapsto> JStr ''soon'', ''title'' \<mapsto> JStr ''Scan''] \<notin>
     set [\<lparr> date = ''2026-03-09'', type = [], title = ''NT scan'', enotes = [] \<rparr>] \<and>
   fetchJsonEvents ref_lib
     (Inr \<lparr> json_ok = True,
            json_events = Inr (Some [[''date'' \<mapsto> JStr ''soon'', ''title'' \<mapsto> JStr ''Scan''],
                              [''date'' \<mapsto> JStr ''2026-03-09'', ''title'' \<mapsto> JStr ''NT scan'']]) \<rparr>) =
     Inr [\<lparr> date = ''2026-03-09'', type = [], title = ''NT scan'', enotes = [] \<rparr>]"
proof -
  let ?r = "[''date'' \<mapsto> JStr ''soon'', ''title'' \<mapsto> JStr ''Scan'']"
  have h: "readDate ref_lib (dateValue ?r) = None"
    by code_simp
  have f: "fetchSheetEvents ref_lib
     (Inr \<lparr> sheet_ok = True,
            sheet_rows = Inr [?r, [''date'' \<mapsto> JStr ''2026-03-09'', ''title'' \<mapsto> JStr ''NT scan'']] \<rparr>) =
     Inr [\<lparr> date = ''2026-03-09'', type = [], title = ''NT scan'', enotes = [] \<rparr>]"
    by code_simp
  have g: "fetchJsonEvents ref_lib
     (Inr \<lparr> json_ok = True,
            json_events = Inr (Some [?r, [''date'' \<mapsto> JStr ''2026-03-09'', ''title'' \<mapsto> JStr ''NT scan'']]) \<rparr>) =
     Inr [\<lparr> date = ''2026-03-09'', type = [], title = ''NT scan'', enotes = [] \<rparr>]"
    by code_simp
  note t = unparseable_excluded [OF h]
  have e: "normalizeEvent ref_lib ?r \<notin>
     set [\<lparr> date = ''2026-03-09'', type = [], title = ''NT scan'', enotes = [] \<rparr>]"
    using t f by blast
  show ?thesis
    by (rule conjI [OF h conjI [OF conjunct1 [OF t] conjI [OF f conjI [OF e g]]]])
qed

text \<open>
  Claim C10. A lowercase key bound to the empty text wins over its capitalized variants:
  the normalized field is empty whatever \<open>Date\<close>, \<open>Type\<close>, \<open>Title\<close> or \<open>Notes\<close>
  hold. The capitalized variants are read only when the lowercase value is null or
  undefined: any other lowercase value is the one that is normalized.
\<close>

theorem empty_lowercase:
  "(r ''date'' = Some (JStr []) \<longrightarrow> date (normalizeEvent L r) = []) \<and>
   (r ''type'' = Some (JStr []) \<longrightarrow> type (normalizeEvent L r) = []) \<and>
   (r ''title'' = Some (JStr []) \<longrightarrow> title (normalizeEvent L r) = []) \<and>
   (r ''notes'' = Some (JStr []) \<longrightarrow> enotes (normalizeEvent L r) = []) \<and>
   (\<not> nullish (get r ''date'') \<longrightarrow> dateValue r = get r ''date'') \<and>
   (\<not> nullish (get r ''type'') \<longrightarrow> type (normalizeEvent L r) = trim (js_String L (get r ''type''))) \<and>
   (\<not> nullish (get r ''title'') \<longrightarrow> title (normalizeEvent L r) = trim (js_String L (get r ''title''))) \<and>
   (\<not> nullish (get r ''notes'') \<longrightarrow> enotes (normalizeEvent L r) = trim (js_String L (get r ''notes'')))"
  by (simp add: normalizeEvent_def dateValue_def get_def coalesce_def formatDateInput_def trim_def)

theorem empty_lowercase_witness:
  "normalizeEvent ref_lib
     [''date'' \<mapsto> JStr [], ''Date'' \<mapsto> JStr ''2026-01-08'',
      ''type'' \<mapsto> JStr [], ''Type'' \<mapsto> JStr ''Ultrasound 1'',
      ''title'' \<mapsto> JStr [], ''Title'' \<mapsto> JStr ''Dating'',
      ''notes'' \<mapsto> JStr [], ''Notes'' \<mapsto> JStr ''bring file''] =
   \<lparr> date = [], type = [], title = [], enotes = [] \<rparr>"
proof -
  let ?r = "[''date'' \<mapsto> JStr [], ''Date'' \<mapsto> JStr ''2026-01-08'',
      ''type'' \<mapsto> JStr [], ''Type'' \<mapsto> JStr ''Ultrasound 1'',
      ''title'' \<mapsto> JStr [], ''Title'' \<mapsto> JStr ''Dating'',
      ''notes'' \<mapsto> JStr [], ''Notes'' \<mapsto> JStr ''bring file'']"
  have k: "?r ''date'' = Some (JStr [])" "?r ''type'' = Some (JStr [])"
    "?r ''title'' = Some (JStr [])" "?r ''notes'' = Some (JStr [])"
    by simp_all
  note t = empty_lowercase [of ?r ref_lib]
  have "date (normalizeEvent ref_lib ?r) = []" using t k(1) by blast
  moreover have "type (normalizeEvent ref_lib ?r) = []" using t k(2) by blast
  moreover have "title (normalizeEvent ref_lib ?r) = []" using t k(3) by blast
  moreover have "enotes (normalizeEvent ref_lib ?r) = []" using t k(4) by blast
  ultimately show ?thesis by (simp add: event.equality)
qed

section \<open>Progress\<close>

lemma floor_div_floor: "floor_div a 7 = \<lfloor>real_of_int a / 7\<rfloor>"
proof -
  have "\<lfloor>real_of_int a / real_of_int 7\<rfloor> = a div 7" by (rule floor_divide_of_int_eq)
  then show ?thesis by (simp add: floor_div_def)
qed

lemma ceil_div_ceiling: "ceil_div w 4 = \<lceil>real_of_int w / 4\<rceil>"
proof -
  have "\<lfloor>real_of_int (- w) / real_of_int 4\<rfloor> = (- w) div 4" by (rule floor_divide_of_int_eq)
  then have "\<lfloor>- (real_of_int w / 4)\<rfloor> = (- w) div 4" by simp
  then show ?thesis by (simp add: ceil_div_def ceiling_def)
qed

lemma js_rem_nonneg: "0 \<le> a \<Longrightarrow> js_rem a 7 = a mod 7"
  by (cases "a = 0") (simp_all add: js_rem_def)

lemma weekNumber_eq:
  "weekNumber (pregnancyProgress dayDelta) =
     (if dayDelta < 0 then 0 else \<lfloor>real_of_int dayDelta / 7\<rfloor>)"
  by (simp add: pregnancyProgress_def Let_def floor_div_floor)

lemma dayOfWeek_eq:
  "dayOfWeek (pregnancyProgress dayDelta) = (if dayDelta < 0 then 0 else dayDelta mod 7)"
  by (simp add: pregnancyProgress_def Let_def js_rem_nonneg)

lemma trimester_eq:
  "trimester (pregnancyProgress dayDelta) =
     (if weekNumber (pregnancyProgress dayDelta) \<le> 0 then ''-''
      else if weekNumber (pregnancyProgress dayDelta) \<in> {1..12} then ''1st Trimester''
      else if weekNumber (pregnancyProgress dayDelta) \<in> {13..27} then ''2nd Trimester''
      else ''3rd Trimester'')"
  by (simp add: pregnancyProgress_def Let_def)

lemma pregnancyMonth_eq:
  "pregnancyMonth (pregnancyProgress dayDelta) =
     (if weekNumber (pregnancyProgress dayDelta) \<le> 0 then None
      else Some \<lceil>real_of_int (weekNumber (pregnancyProgress dayDelta)) / 4\<rceil>)"
  by (simp add: pregnancyProgress_def Let_def ceil_div_ceiling)

lemma negative_not_started:
  "dayDelta < 0 \<Longrightarrow> trimester (pregnancyProgress dayDelta) = ''-''"
  by (simp add: pregnancyProgress_def Let_def)

text \<open>
  Claim C4. For every \<open>dayDelta\<close>: when it is negative the week number and the day of
  the week are 0 and the trimester is the sentinel \<open>"-"\<close>; otherwise the week number is
  the floor of \<open>dayDelta / 7\<close> and the day of the week is \<open>dayDelta mod 7\<close>. The trimester
  is the sentinel for a week number of at most 0, the first for 1 to 12, the second for
  13 to 27, the third from 28 on. The pregnancy month is the sentinel for a week number
  of at most 0 and the ceiling of \<open>weekNumber / 4\<close> otherwise.
\<close>

theorem progress_spec:
  "weekNumber (pregnancyProgress dayDelta) =
     (if dayDelta < 0 then 0 else \<lfloor>real_of_int dayDelta / 7\<rfloor>) \<and>
   dayOfWeek (pregnancyProgress dayDelta) = (if dayDelta < 0 then 0 else dayDelta mod 7) \<and>
   trimester (pregnancyProgress dayDelta) =
     (if dayDelta < 0 \<or> weekNumber (pregnancyProgress dayDelta) \<le> 0 then ''-''
      else if weekNumber (pregnancyProgress dayDelta) \<in> {1..12} then ''1st Trimester''
      else if weekNumber (pregnancyProgress dayDelta) \<in> {13..27} then ''2nd Trimester''
      else ''3rd Trimester'') \<and>
   pregnancyMonth (pregnancyProgress dayDelta) =
     (if weekNumber (pregnancyProgress dayDelta) \<le> 0 then None
      else Some \<lceil>real_of_int (weekNumber (pregnancyProgress dayDelta)) / 4\<rceil>)"
proof (intro conjI)
  show "weekNumber (pregnancyProgress dayDelta) =
     (if dayDelta < 0 then 0 else \<lfloor>real_of_int dayDelta / 7\<rfloor>)"
    by (rule weekNumber_eq)
  show "dayOfWeek (pregnancyProgress dayDelta) = (if dayDelta < 0 then 0 else dayDelta mod 7)"
    by (rule dayOfWeek_eq)
  show "trimester (pregnancyProgress dayDelta) =
     (if dayDelta < 0 \<or> weekNumber (pregnancyProgress dayDelta) \<le> 0 then ''-''
      else if weekNumber (pregnancyProgress dayDelta) \<in> {1..12} then ''1st Trimester''
      else if weekNumber (pregnancyProgress dayDelta) \<in> {13..27} then ''2nd Trimester''
      else ''3rd Trimester'')"
    using trimester_eq [of dayDelta] negative_not_started [of dayDelta]
    by (cases "dayDelta < 0") simp_all
  show "pregnancyMonth (pregnancyProgress dayDelta) =
     (if weekNumber (pregnancyProgress dayDelta) \<le> 0 then None
      else Some \<lceil>real_of_int (weekNumber (pregnancyProgress dayDelta)) / 4\<rceil>)"
    by (rule pregnancyMonth_eq)
qed

section \<open>Store: adds and views\<close>

lemma byDate_le: "byDate a b \<le> 0 \<longleftrightarrow> date a \<le> date b"
  by (auto simp: byDate_def localeCompare_def)

lemma mset_insert_cmp: "mset (insert_cmp cmp x xs) = {#x#} + mset xs"
  by (induction xs) auto

lemma mset_js_sort: "mset (js_sort cmp xs) = mset xs"
  by (induction xs) (auto simp: mset_insert_cmp)

lemma set_insert_cmp: "set (insert_cmp cmp x xs) = insert x (set xs)"
  by (induction xs) auto

lemma set_js_sort: "set (js_sort cmp xs) = set xs"
  by (induction xs) (auto simp: set_insert_cmp)

lemma length_js_sort: "length (js_sort cmp xs) = length xs"
  by (metis mset_js_sort size_mset)

lemma sorted_insert_byDate:
  "sorted (map date xs) \<Longrightarrow> sorted (map date (insert_cmp byDate x xs))"
  by (induction xs) (auto simp: byDate_le set_insert_cmp)

lemma sorted_js_sort: "sorted (map date (js_sort byDate xs))"
  by (induction xs) (auto simp: sorted_insert_byDate)

lemma sorted_take: "sorted xs \<Longrightarrow> sorted (take n xs)"
  by (metis append_take_drop_id sorted_append)

text \<open>
  Claim C5. An add with an empty date or an empty title fails: the only change to the
  state is the validation message, so the event list is unchanged. An add with a
  non-empty date and a non-empty title is accepted: the message says so, the form is
  cleared and the normalized event is in the list.
\<close>

theorem add_validation:
  "(date (form st) = [] \<or> title (form st) = [] \<longrightarrow>
      handleAddEvent L st = st\<lparr> message := ''Please add at least a date and title.'' \<rparr> \<and>
      events (handleAddEvent L st) = events st) \<and>
   (date (form st) \<noteq> [] \<and> title (form st) \<noteq> [] \<longrightarrow>
      message (handleAddEvent L st) = ''Event added locally.'' \<and>
      form (handleAddEvent L st) = emptyForm \<and>
      mset (events (handleAddEvent L st)) =
        mset (events st) + {# normalizeEvent L (event_raw (form st)) #})"
  by (simp add: handleAddEvent_def Let_def mset_js_sort)

lemma events_step_Add:
  "events (step L st (Add f)) =
     (if date f = [] \<or> title f = [] then events st
      else js_sort byDate (events st @ [normalizeEvent L (event_raw f)]))"
  by (simp add: handleAddEvent_def Let_def)

text \<open>
  Claim C6. An accepted add inserts the normalized event, whatever the list held, and
  leaves the list sorted ascending by date in the order of texts. In particular, adding
  events dated 2026-01-03, 2026-01-01 and 2026-01-02 in that order to the empty store
  gives the dates in the order 01, 02, 03.
\<close>

theorem add_sorts:
  assumes "date (form st) \<noteq> []" and "title (form st) \<noteq> []"
  shows "mset (events (handleAddEvent L st)) =
           mset (events st) + {# normalizeEvent L (event_raw (form st)) #} \<and>
         sorted (map date (events (handleAddEvent L st))) \<and>
         map date (events (run ref_lib
           [Add \<lparr> date = ''2026-01-03'', type = [], title = ''c'', enotes = [] \<rparr>,
            Add \<lparr> date = ''2026-01-01'', type = [], title = ''a'', enotes = [] \<rparr>,
            Add \<lparr> date = ''2026-01-02'', type = [], title = ''b'', enotes = [] \<rparr>]
           (initial today))) = [''2026-01-01'', ''2026-01-02'', ''2026-01-03'']"
proof (intro conjI)
  show "mset (events (handleAddEvent L st)) =
           mset (events st) + {# normalizeEvent L (event_raw (form st)) #}"
    using assms by (simp add: handleAddEvent_def Let_def mset_js_sort)
  show "sorted (map date (events (handleAddEvent L st)))"
    using assms by (simp add: handleAddEvent_def Let_def sorted_js_sort)
  have run_eq: "events (run ref_lib
           [Add \<lparr> date = ''2026-01-03'', type = [], title = ''c'', enotes = [] \<rparr>,
            Add \<lparr> date = ''2026-01-01'', type = [], title = ''a'', enotes = [] \<rparr>,
            Add \<lparr> date = ''2026-01-02'', type = [], title = ''b'', enotes = [] \<rparr>]
           (initial today)) =
        js_sort byDate (js_sort byDate (js_sort byDate ([] @
          [normalizeEvent ref_lib (event_raw \<lparr> date = ''2026-01-03'', type = [], title = ''c'', enotes = [] \<rparr>)]) @
          [normalizeEvent ref_lib (event_raw \<lparr> date = ''2026-01-01'', type = [], title = ''a'', enotes = [] \<rparr>)]) @
          [normalizeEvent ref_lib (event_raw \<lparr> date = ''2026-01-02'', type = [], title = ''b'', enotes = [] \<rparr>)])"
    unfolding run_def foldl.simps events_step_Add by (simp add: initial_def)
  have sorted_eq: "map date (js_sort byDate (js_sort byDate (js_sort byDate ([] @
          [normalizeEvent ref_lib (event_raw \<lparr> date = ''2026-01-03'', type = [], title = ''c'', enotes = [] \<rparr>)]) @
          [normalizeEvent ref_lib (event_raw \<lparr> date = ''2026-01-01'', type = [], title = ''a'', enotes = [] \<rparr>)]) @
          [normalizeEvent ref_lib (event_raw \<lparr> date = ''2026-01-02'', type = [], title = ''b'', enotes = [] \<rparr>)]))
        = [''2026-01-01'', ''2026-01-02'', ''2026-01-03'']"
    by code_simp
  show "map date (events (run ref_lib
           [Add \<lparr> date = ''2026-01-03'', type = [], title = ''c'', enotes = [] \<rparr>,
            Add \<lparr> date = ''2026-01-01'', type = [], title = ''a'', enotes = [] \<rparr>,
            Add \<lparr> date = ''2026-01-02'', type = [], title = ''b'', enotes = [] \<rparr>]
           (initial today))) = [''2026-01-01'', ''2026-01-02'', ''2026-01-03'']"
    by (simp only: run_eq sorted_eq)
qed

text \<open>
  Claim C9. For every event list and every day, the upcoming window has at most 5
  events, is sorted ascending by date, and holds only events of the list whose date is
  not before the date key of the day.
\<close>

theorem upcoming_window:
  "length (upcomingEvents today evs) \<le> 5 \<and>
   sorted (map date (upcomingEvents today evs)) \<and>
   list_all (\<lambda>ev. format_ymd today \<le> date ev) (upcomingEvents today evs) \<and>
   set (upcomingEvents today evs) \<subseteq> set evs"
proof (intro conjI)
  show "length (upcomingEvents today evs) \<le> 5"
    by (simp add: upcomingEvents_def Let_def)
  show "sorted (map date (upcomingEvents today evs))"
    by (simp add: upcomingEvents_def Let_def take_map [symmetric] sorted_take sorted_js_sort)
  have "set (upcomingEvents today evs) \<subseteq> {ev \<in> set evs. format_ymd today \<le> date ev}"
    using set_take_subset [of 5 "js_sort byDate (filter (\<lambda>ev. format_ymd today \<le> date ev) evs)"]
    by (simp add: upcomingEvents_def Let_def set_js_sort)
  then show "list_all (\<lambda>ev. format_ymd today \<le> date ev) (upcomingEvents today evs)"
    and "set (upcomingEvents today evs) \<subseteq> set evs"
    by (auto simp: list_all_iff)
qed


theorem add_validation_witness:
  "events (handleAddEvent ref_lib ((initial (Cal 2026 1 1))
      \<lparr> form := \<lparr> date = [], type = [], title = ''x'', enotes = [] \<rparr> \<rparr>)) = [] \<and>
   message (handleAddEvent ref_lib ((initial (Cal 2026 1 1))
      \<lparr> form := \<lparr> date = [], type = [], title = ''x'', enotes = [] \<rparr> \<rparr>)) =
     ''Please add at least a date and title.'' \<and>
   events (handleAddEvent ref_lib ((initial (Cal 2026 1 1))
      \<lparr> form := \<lparr> date = ''2026-01-01'', type = [], title = [], enotes = [] \<rparr> \<rparr>)) = [] \<and>
   message (handleAddEvent ref_lib ((initial (Cal 2026 1 1))
      \<lparr> form := \<lparr> date = ''2026-01-01'', type = [], title = ''Checkup'', enotes = [] \<rparr> \<rparr>)) =
     ''Event added locally.'' \<and>
   mset (events (handleAddEvent ref_lib ((initial (Cal 2026 1 1))
      \<lparr> form := \<lparr> date = ''2026-01-01'', type = [], title = ''Checkup'', enotes = [] \<rparr> \<rparr>))) =
     {# \<lparr> date = ''2026-01-01'', type = [], title = ''Checkup'', enotes = [] \<rparr> #}"
proof -
  let ?s1 = "(initial (Cal 2026 1 1))
      \<lparr> form := \<lparr> date = [], type = [], title = ''x'', enotes = [] \<rparr> \<rparr>"
  let ?s2 = "(initial (Cal 2026 1 1))
      \<lparr> form := \<lparr> date = ''2026-01-01'', type = [], title = [], enotes = [] \<rparr> \<rparr>"
  let ?s3 = "(initial (Cal 2026 1 1))
      \<lparr> form := \<lparr> date = ''2026-01-01'', type = [], title = ''Checkup'', enotes = [] \<rparr> \<rparr>"
  have n: "normalizeEvent ref_lib
      (event_raw \<lparr> date = ''2026-01-01'', type = [], title = ''Checkup'', enotes = [] \<rparr>) =
      \<lparr> date = ''2026-01-01'', type = [], title = ''Checkup'', enotes = [] \<rparr>"
    by code_simp
  have a: "events (handleAddEvent ref_lib ?s1) = [] \<and>
           message (handleAddEvent ref_lib ?s1) = ''Please add at least a date and title.''"
    using add_validation [of ?s1 ref_lib] by (simp add: initial_def)
  have b: "events (handleAddEvent ref_lib ?s2) = []"
    using add_validation [of ?s2 ref_lib] by (simp add: initial_def)
  have c: "message (handleAddEvent ref_lib ?s3) = ''Event added locally.'' \<and>
           mset (events (handleAddEvent ref_lib ?s3)) =
             {# \<lparr> date = ''2026-01-01'', type = [], title = ''Checkup'', enotes = [] \<rparr> #}"
    using add_validation [of ?s3 ref_lib] n by (simp add: initial_def)
  from a b c show ?thesis by blast
qed

theorem add_sorts_witness:
  "date (form ((initial (Cal 2026 1 1))
      \<lparr> events := [\<lparr> date = ''2026-01-03'', type = [], title = ''c'', enotes = [] \<rparr>,
                    \<lparr> date = ''2026-01-01'', type = [], title = ''a'', enotes = [] \<rparr>],
        form := \<lparr> date = ''2026-01-02'', type = [], title = ''b'', enotes = [] \<rparr> \<rparr>)) \<noteq> [] \<and>
   title (form ((initial (Cal 2026 1 1))
      \<lparr> events := [\<lparr> date = ''2026-01-03'', type = [], title = ''c'', enotes = [] \<rparr>,
                    \<lparr> date = ''2026-01-01'', type = [], title = ''a'', enotes = [] \<rparr>],
        form := \<lparr> date = ''2026-01-02'', type = [], title = ''b'', enotes = [] \<rparr> \<rparr>)) \<noteq> [] \<and>
   sorted (map date (events (handleAddEvent ref_lib ((initial (Cal 2026 1 1))
      \<lparr> events := [\<lparr> date = ''2026-01-03'', type = [], title = ''c'', enotes = [] \<rparr>,
                    \<lparr> date = ''2026-01-01'', type = [], title = ''a'', enotes = [] \<rparr>],
        form := \<lparr> date = ''2026-01-02'', type = [], title = ''b'', enotes = [] \<rparr> \<rparr>))))"
proof -
  let ?st = "(initial (Cal 2026 1 1))
      \<lparr> events := [\<lparr> date = ''2026-01-03'', type = [], title = ''c'', enotes = [] \<rparr>,
                    \<lparr> date = ''2026-01-01'', type = [], title = ''a'', enotes = [] \<rparr>],
        form := \<lparr> date = ''2026-01-02'', type = [], title = ''b'', enotes = [] \<rparr> \<rparr>"
  have h1: "date (form ?st) \<noteq> []" by (simp add: initial_def)
  have h2: "title (form ?st) \<noteq> []" by (simp add: initial_def)
  note t = add_sorts [OF h1 h2, of ref_lib "Cal 2026 1 1"]
  show ?thesis
    by (rule conjI [OF h1 conjI [OF h2 conjunct1 [OF conjunct2 [OF t]]]])
qed

section \<open>Sync\<close>

lemma getGitHubFileSha_not_found:
  assumes "srv calls (get_request own rep path br tok) = Inr response"
    and "status response = 404"
  shows "getGitHubFileSha srv own rep path br tok calls =
           (Inr JNull, calls @ [get_request own rep path br tok])"
  using assms by (simp add: getGitHubFileSha_def fetch_def)

lemma getGitHubFileSha_found:
  assumes "srv calls (get_request own rep path br tok) = Inr response"
    and "ok response"
    and "json_body response = Inr (Some data)"
  shows "getGitHubFileSha srv own rep path br tok calls =
           (Inr (get data ''sha''), calls @ [get_request own rep path br tok])"
  using assms by (simp add: getGitHubFileSha_def fetch_def ok_def)

lemma putGitHubFile_calls:
  assumes "getGitHubFileSha srv own rep path br tok calls = (Inr s, calls1)"
  shows "snd (putGitHubFile srv own rep path br tok cont msg calls) =
           calls1 @ [put_request own rep path br tok cont msg s]"
  using assms
  by (simp add: putGitHubFile_def fetch_def split: sum.splits)

lemma sha_put_request:
  "map_option sha (body (put_request own rep path br tok cont msg s)) = Some s"
  by (simp add: put_request_def)

text \<open>
  Claim C2. In \<open>putGitHubFile\<close>, for all settings, path, content and message: when the
  metadata read is answered "not found" (status 404), the write request is the next call
  and its \<open>sha\<close> is null, no prior revision marker; when the read is answered with data
  whose \<open>sha\<close> is the marker \<open>m\<close>, the \<open>sha\<close> of the write request is exactly \<open>m\<close>.
\<close>

theorem write_carries_marker:
  "(srv calls (get_request own rep path br tok) = Inr response \<and> status response = 404 \<longrightarrow>
      snd (putGitHubFile srv own rep path br tok cont msg calls) =
        calls @ [get_request own rep path br tok, put_request own rep path br tok cont msg JNull] \<and>
      map_option sha (body (last (snd (putGitHubFile srv own rep path br tok cont msg calls)))) =
        Some JNull) \<and>
   (srv calls (get_request own rep path br tok) = Inr response \<and> ok response \<and>
    json_body response = Inr (Some data) \<and> data ''sha'' = Some m \<longrightarrow>
      snd (putGitHubFile srv own rep path br tok cont msg calls) =
        calls @ [get_request own rep path br tok, put_request own rep path br tok cont msg m] \<and>
      map_option sha (body (last (snd (putGitHubFile srv own rep path br tok cont msg calls)))) =
        Some m)"
proof (intro conjI impI)
  assume a: "srv calls (get_request own rep path br tok) = Inr response \<and> status response = 404"
  then have "getGitHubFileSha srv own rep path br tok calls =
           (Inr JNull, calls @ [get_request own rep path br tok])"
    by (simp add: getGitHubFileSha_not_found)
  then show c: "snd (putGitHubFile srv own rep path br tok cont msg calls) =
        calls @ [get_request own rep path br tok, put_request own rep path br tok cont msg JNull]"
    by (simp add: putGitHubFile_calls)
  show "map_option sha (body (last (snd (putGitHubFile srv own rep path br tok cont msg calls)))) =
        Some JNull"
    by (simp only: c) (simp add: sha_put_request)
next
  assume a: "srv calls (get_request own rep path br tok) = Inr response \<and> ok response \<and>
    json_body response = Inr (Some data) \<and> data ''sha'' = Some m"
  then have "getGitHubFileSha srv own rep path br tok calls =
           (Inr (get data ''sha''), calls @ [get_request own rep path br tok])"
    by (simp add: getGitHubFileSha_found)
  moreover from a have "get data ''sha'' = m" by (simp add: get_def)
  ultimately show c: "snd (putGitHubFile srv own rep path br tok cont msg calls) =
        calls @ [get_request own rep path br tok, put_request own rep path br tok cont msg m]"
    by (simp add: putGitHubFile_calls)
  show "map_option sha (body (last (snd (putGitHubFile srv own rep path br tok cont msg calls)))) =
        Some m"
    by (simp only: c) (simp add: sha_put_request)
qed

lemma getGitHubFileSha_one_call:
  "snd (getGitHubFileSha srv own rep path br tok calls) = calls @ [get_request own rep path br tok]"
  by (simp add: getGitHubFileSha_def fetch_def split: sum.splits option.splits)

lemma putGitHubFile_failed_calls:
  assumes "putGitHubFile srv own rep path br tok cont msg calls = (Inl e, calls1)"
  shows "calls1 = calls @ [get_request own rep path br tok] \<or>
         (\<exists>m. calls1 = calls @ [get_request own rep path br tok,
                                 put_request own rep path br tok cont msg m])"
proof (cases "getGitHubFileSha srv own rep path br tok calls")
  case (Pair r c)
  with getGitHubFileSha_one_call [of srv own rep path br tok calls]
  have c: "c = calls @ [get_request own rep path br tok]" by simp
  show ?thesis
  proof (cases r)
    case (Inl e')
    with Pair assms c show ?thesis by (simp add: putGitHubFile_def)
  next
    case (Inr s)
    with Pair have "snd (putGitHubFile srv own rep path br tok cont msg calls) =
           c @ [put_request own rep path br tok cont msg s]"
      by (simp add: putGitHubFile_calls)
    with assms c show ?thesis by auto
  qed
qed

text \<open>
  Claim C3. In every run of \<open>handleSync\<close> that passes the check of the settings and in
  which the write of the JSON file fails (\<open>putGitHubFile\<close> throws: the read or the
  write rejected, or was answered without success), the failure is the message shown,
  and the calls made are the read of the JSON path alone or that read and the write of
  the JSON file: the workbook is neither read nor written, and no call follows.
\<close>

theorem json_failure_aborts:
  assumes "owner (settings st) \<noteq> []" and "repo (settings st) \<noteq> []"
    and "token (settings st) \<noteq> []"
    and "putGitHubFile srv (owner (settings st)) (repo (settings st)) (jsonPath (settings st))
           (branch (settings st)) (token (settings st)) (jsonContent C (events st))
           ''Update pregnancy data JSON'' calls = (Inl e, calls1)"
  shows "handleSync C srv st calls =
           (st\<lparr> saving := False, message := message_or e ''Sync failed.'' \<rparr>, calls1) \<and>
         (calls1 = calls @ [get_request (owner (settings st)) (repo (settings st))
                              (jsonPath (settings st)) (branch (settings st)) (token (settings st))] \<or>
          (\<exists>m. calls1 = calls @
                  [get_request (owner (settings st)) (repo (settings st))
                     (jsonPath (settings st)) (branch (settings st)) (token (settings st)),
                   put_request (owner (settings st)) (repo (settings st))
                     (jsonPath (settings st)) (branch (settings st)) (token (settings st))
                     (jsonContent C (events st)) ''Update pregnancy data JSON'' m])) \<and>
         list_all (\<lambda>q. map_option commit_message (body q) \<noteq> Some ''Update pregnancy data Excel'')
           (drop (length calls) calls1)"
proof (intro conjI)
  show "handleSync C srv st calls =
           (st\<lparr> saving := False, message := message_or e ''Sync failed.'' \<rparr>, calls1)"
    using assms by (simp add: handleSync_def Let_def)
  show d: "calls1 = calls @ [get_request (owner (settings st)) (repo (settings st))
                              (jsonPath (settings st)) (branch (settings st)) (token (settings st))] \<or>
          (\<exists>m. calls1 = calls @
                  [get_request (owner (settings st)) (repo (settings st))
                     (jsonPath (settings st)) (branch (settings st)) (token (settings st)),
                   put_request (owner (settings st)) (repo (settings st))
                     (jsonPath (settings st)) (branch (settings st)) (token (settings st))
                     (jsonContent C (events st)) ''Update pregnancy data JSON'' m])"
    using assms(4) by (rule putGitHubFile_failed_calls)
  show "list_all (\<lambda>q. map_option commit_message (body q) \<noteq> Some ''Update pregnancy data Excel'')
           (drop (length calls) calls1)"
    using d by (auto simp: get_request_def put_request_def)
qed


theorem write_carries_marker_witness:
  "snd (putGitHubFile
          (\<lambda>calls req. if http_method req = GET
             then Inr \<lparr> status = 404, text_body = Inr ''Not Found'', json_body = Inr None \<rparr>
             else Inr \<lparr> status = 201, text_body = Inr [], json_body = Inr None \<rparr>)
          ''o'' ''r'' ''public/data/pregnancy-data.json'' ''main'' ''t'' ''e30=''
          ''Update pregnancy data JSON'' []) =
     [get_request ''o'' ''r'' ''public/data/pregnancy-data.json'' ''main'' ''t'',
      put_request ''o'' ''r'' ''public/data/pregnancy-data.json'' ''main'' ''t'' ''e30=''
        ''Update pregnancy data JSON'' JNull] \<and>
   snd (putGitHubFile
          (\<lambda>calls req. if http_method req = GET
             then Inr \<lparr> status = 200, text_body = Inr [],
                         json_body = Inr (Some [''sha'' \<mapsto> JStr ''abc123'']) \<rparr>
             else Inr \<lparr> status = 200, text_body = Inr [], json_body = Inr None \<rparr>)
          ''o'' ''r'' ''public/data/pregnancy-data.json'' ''main'' ''t'' ''e30=''
          ''Update pregnancy data JSON'' []) =
     [get_request ''o'' ''r'' ''public/data/pregnancy-data.json'' ''main'' ''t'',
      put_request ''o'' ''r'' ''public/data/pregnancy-data.json'' ''main'' ''t'' ''e30=''
        ''Update pregnancy data JSON'' (JStr ''abc123'')]"
proof (rule conjI)
  let ?absent = "\<lambda>(calls :: request list) req. if http_method req = GET
             then Inr \<lparr> status = 404, text_body = Inr ''Not Found'', json_body = Inr None \<rparr>
             else (Inr \<lparr> status = 201, text_body = Inr [], json_body = Inr None \<rparr> :: error + reply)"
  let ?present = "\<lambda>(calls :: request list) req. if http_method req = GET
             then Inr \<lparr> status = 200, text_body = Inr [],
                         json_body = Inr (Some [''sha'' \<mapsto> JStr ''abc123'']) \<rparr>
             else (Inr \<lparr> status = 200, text_body = Inr [], json_body = Inr None \<rparr> :: error + reply)"
  show "snd (putGitHubFile ?absent
          ''o'' ''r'' ''public/data/pregnancy-data.json'' ''main'' ''t'' ''e30=''
          ''Update pregnancy data JSON'' []) =
     [get_request ''o'' ''r'' ''public/data/pregnancy-data.json'' ''main'' ''t'',
      put_request ''o'' ''r'' ''public/data/pregnancy-data.json'' ''main'' ''t'' ''e30=''
        ''Update pregnancy data JSON'' JNull]"
    using write_carries_marker [where srv = ?absent and calls = "[]"
        and response = "\<lparr> status = 404, text_body = Inr ''Not Found'', json_body = Inr None \<rparr>"
        and own = "''o''" and rep = "''r''" and path = "''public/data/pregnancy-data.json''"
        and br = "''main''" and tok = "''t''" and cont = "''e30=''"
        and msg = "''Update pregnancy data JSON''"]
    by (simp add: get_request_def)
  show "snd (putGitHubFile ?present
          ''o'' ''r'' ''public/data/pregnancy-data.json'' ''main'' ''t'' ''e30=''
          ''Update pregnancy data JSON'' []) =
     [get_request ''o'' ''r'' ''public/data/pregnancy-data.json'' ''main'' ''t'',
      put_request ''o'' ''r'' ''public/data/pregnancy-data.json'' ''main'' ''t'' ''e30=''
        ''Update pregnancy data JSON'' (JStr ''abc123'')]"
    using write_carries_marker [where srv = ?present and calls = "[]"
        and response = "\<lparr> status = 200, text_body = Inr [],
                         json_body = Inr (Some [''sha'' \<mapsto> JStr ''abc123'']) \<rparr>"
        and data = "[''sha'' \<mapsto> JStr ''abc123'']" and m = "JStr ''abc123''"
        and own = "''o''" and rep = "''r''" and path = "''public/data/pregnancy-data.json''"
        and br = "''main''" and tok = "''t''" and cont = "''e30=''"
        and msg = "''Update pregnancy data JSON''"]
    by (simp add: get_request_def ok_def)
qed

theorem json_failure_aborts_witness:
  "handleSync \<lparr> jsonContent = (\<lambda>evs. ''json''), xlsxContent = (\<lambda>evs. ''xlsx'') \<rparr>
     (\<lambda>calls req. if http_method req = GET
        then Inr \<lparr> status = 200, text_body = Inr [],
                    json_body = Inr (Some [''sha'' \<mapsto> JStr ''abc123'']) \<rparr>
        else Inr \<lparr> status = 409, text_body = Inr ''conflict'', json_body = Inr None \<rparr>)
     ((initial (Cal 2026 1 1))
        \<lparr> settings := defaultSettings \<lparr> owner := ''o'', repo := ''r'', token := ''t'' \<rparr> \<rparr>) [] =
   ((initial (Cal 2026 1 1))
      \<lparr> settings := defaultSettings \<lparr> owner := ''o'', repo := ''r'', token := ''t'' \<rparr> \<rparr>
      \<lparr> saving := False,
        message := message_or ''Failed to update public/data/pregnancy-data.json: 409 conflict''
                     ''Sync failed.'' \<rparr>,
    [get_request ''o'' ''r'' ''public/data/pregnancy-data.json'' ''main'' ''t'',
     put_request ''o'' ''r'' ''public/data/pregnancy-data.json'' ''main'' ''t'' ''json''
       ''Update pregnancy data JSON'' (JStr ''abc123'')])"
proof -
  let ?C = "\<lparr> jsonContent = (\<lambda>evs :: event list. ''json''), xlsxContent = (\<lambda>evs :: event list. ''xlsx'') \<rparr>"
  let ?srv = "\<lambda>(calls :: request list) req. if http_method req = GET
        then Inr \<lparr> status = 200, text_body = Inr [],
                    json_body = Inr (Some [''sha'' \<mapsto> JStr ''abc123'']) \<rparr>
        else (Inr \<lparr> status = 409, text_body = Inr ''conflict'', json_body = Inr None \<rparr> :: error + reply)"
  let ?st = "(initial (Cal 2026 1 1))
        \<lparr> settings := defaultSettings \<lparr> owner := ''o'', repo := ''r'', token := ''t'' \<rparr> \<rparr>"
  have d: "dec_nat 409 = ''409''" by code_simp
  have h1: "owner (settings ?st) \<noteq> []" by simp
  have h2: "repo (settings ?st) \<noteq> []" by simp
  have h3: "token (settings ?st) \<noteq> []" by simp
  have h4: "putGitHubFile ?srv (owner (settings ?st)) (repo (settings ?st)) (jsonPath (settings ?st))
           (branch (settings ?st)) (token (settings ?st)) (jsonContent ?C (events ?st))
           ''Update pregnancy data JSON'' [] =
        (Inl ''Failed to update public/data/pregnancy-data.json: 409 conflict'',
         [get_request ''o'' ''r'' ''public/data/pregnancy-data.json'' ''main'' ''t'',
          put_request ''o'' ''r'' ''public/data/pregnancy-data.json'' ''main'' ''t'' ''json''
            ''Update pregnancy data JSON'' (JStr ''abc123'')])"
    by (simp add: putGitHubFile_def getGitHubFileSha_def fetch_def get_request_def
        put_request_def ok_def get_def initial_def defaultSettings_def d)
  show ?thesis
    by (rule conjunct1 [OF json_failure_aborts [OF h1 h2 h3 h4]])
qed

section \<open>The dates of the store\<close>























end
